theory Spec2Isabelle
  imports Main "HOL-Library.Word" "HOL-Library.Multiset"
begin

section \<open>Package rules: the data handed to the rule providers\<close>

text \<open>
  A Go byte slice is either \<open>nil\<close> or a (possibly empty) sequence of bytes. The two are
  different values for the comparison \<open>x == nil\<close>, so a slice is an optional byte list:
  \<open>None\<close> is \<open>nil\<close>, \<open>Some []\<close> is the empty slice that is not \<open>nil\<close>.
  A Go pointer to a struct is modelled the same way: \<open>None\<close> is the \<open>nil\<close> pointer.
\<close>

type_synonym bytes = "8 word list"
type_synonym slice = "bytes option"

text \<open>\<open>rules.Checkpoint\<close> (service.go, lines 43-47).\<close>

record rules_Checkpoint =
  Epoch :: "64 word"
  Root :: slice

text \<open>\<open>rules.SignBeaconAttestationData\<close> (service.go, lines 33-41).\<close>

record SignBeaconAttestationData =
  Domain :: slice
  Slot :: "64 word"
  CommitteeIndex :: "64 word"
  BeaconBlockRoot :: slice
  Source :: "rules_Checkpoint option"
  Target :: "rules_Checkpoint option"

text \<open>
  \<open>rules.Result\<close> (service.go, lines 76-84) is declared \<open>type Result int\<close>, and its four
  constants are numbered by \<open>iota\<close>. The type is an integer type: a rule provider may
  return any integer, not only one of the four constants.
\<close>

type_synonym Result = int

definition UNKNOWN :: Result where "UNKNOWN = 0"
definition APPROVED :: Result where "APPROVED = 1"
definition DENIED :: Result where "DENIED = 2"
definition FAILED :: Result where "FAILED = 3"

section \<open>Package standard: the attestation pipeline\<close>

text \<open>\<open>standard.Checkpoint\<close> and \<open>standard.BeaconAttestation\<close>
  (signbeaconattestation.go, lines 27-40), the copies that carry the SSZ sizes.\<close>

record Checkpoint =
  Epoch :: "64 word"
  Root :: slice

record BeaconAttestation =
  Slot :: "64 word"
  CommitteeIndex :: "64 word"
  BeaconBlockRoot :: slice
  Source :: "Checkpoint option"
  Target :: "Checkpoint option"

subsection \<open>Types declared outside the two source files\<close>

text \<open>
  Modelled from the spec: \<open>core.Result\<close>, the outcome of the pipeline, is declared in
  package \<open>core\<close>. The spec names three outcomes, SUCCEEDED, DENIED and FAILED, and the
  source uses \<open>core.ResultSucceeded\<close>, \<open>core.ResultDenied\<close> and \<open>core.ResultFailed\<close>.
  \<open>ResultOther\<close> stands for any further value the Go type may have, so that nothing below
  depends on the credential resolver returning one of the three named values only.
\<close>

datatype core_Result = ResultSucceeded | ResultDenied | ResultFailed | ResultOther int

text \<open>
  Modelled from the spec: \<open>checker.Credentials\<close> is the caller identity, a request
  identifier and a client identity string; the source reads \<open>RequestID\<close> and \<open>Client\<close>.
\<close>

record Credentials =
  RequestID :: string
  Client :: string

text \<open>
  Modelled from the spec: the wallet and account handles are owned by the key store. The
  source calls \<open>wallet.Name()\<close>, \<open>account.Name()\<close> and
  \<open>account.PublicKey().Marshal()\<close> on them, so a handle is the record of what these
  calls return.
\<close>

record Wallet =
  Name :: string

record Account =
  Name :: string
  PublicKey :: bytes

type_synonym time = nat
type_synonym error = string

subsection \<open>Collaborators\<close>

text \<open>
  The pipeline reaches five collaborators, none of them defined in the two source files;
  each is a parameter of the model.
  \<^item> \<open>s.monitor.SignCompleted(started, action, result)\<close> returns nothing; it can only
    change the monitor's own state, of type \<open>'m\<close>.
  \<^item> \<open>s.ruler.RunRules\<close> returns a \<open>rules.Result\<close>.
  \<^item> \<open>s.preCheck\<close> returns a wallet, an account and a \<open>core.Result\<close>. Modelled from
    the spec: the resolver maps the request to a concrete account handle, so the handles
    are values; the source uses them only after the result was \<open>core.ResultSucceeded\<close>.
  \<^item> \<open>generateSigningRootFromData\<close> returns a 32-byte root and an error.
  \<^item> \<open>signRoot\<close> returns a signature slice and an error.
  Each of the last four is called at most once in one execution, so its answer to that
  call is a function of the arguments. In this first definition the rule engine leaves
  the request as it found it and the monitor returns from every call; the second
  definition, further down, drops both assumptions, and the two agree where they hold. The \<open>context.Context\<close> argument is only passed
  through and is left out, as are the log lines, which nothing reads back.
  \<open>ruler.ActionSignBeaconAttestation\<close> is a constant of package \<open>ruler\<close>.
\<close>

record 'm Service =
  monitor_SignCompleted :: "time \<Rightarrow> string \<Rightarrow> core_Result \<Rightarrow> 'm \<Rightarrow> 'm"
  ruler_RunRules ::
    "Credentials \<Rightarrow> string \<Rightarrow> string \<Rightarrow> string \<Rightarrow> bytes \<Rightarrow> SignBeaconAttestationData \<Rightarrow> Result"
  preCheck :: "Credentials \<Rightarrow> string \<Rightarrow> slice \<Rightarrow> string \<Rightarrow> Wallet \<times> Account \<times> core_Result"

record Package =
  ActionSignBeaconAttestation :: string
  generateSigningRootFromData :: "BeaconAttestation \<Rightarrow> slice \<Rightarrow> bytes \<times> error option"
  signRoot :: "Account \<Rightarrow> bytes \<Rightarrow> slice \<times> error option"

subsection \<open>Effects\<close>

text \<open>
  One execution leaves two traces: the calls it made to its collaborators, in order and
  with their arguments, and the state of the monitor after the calls to \<open>SignCompleted\<close>.
\<close>

datatype event =
    is_preCheck: Call_preCheck Credentials string slice string
  | is_RunRules: Call_RunRules Credentials string string string bytes SignBeaconAttestationData
  | is_generateSigningRootFromData: Call_generateSigningRootFromData BeaconAttestation slice
  | is_signRoot: Call_signRoot Account bytes
  | is_SignCompleted: Call_SignCompleted time string core_Result

type_synonym 'm effects = "event list \<times> 'm"

record 'm run =
  outcome :: core_Result
  signature :: slice
  calls :: "event list"
  monitor_state :: 'm

definition called :: "event \<Rightarrow> 'm effects \<Rightarrow> 'm effects" where
  "called e st = (fst st @ [e], snd st)"

text \<open>\<open>s.monitor.SignCompleted(started, action, result)\<close>.\<close>

definition SignCompleted ::
    "'m Service \<Rightarrow> time \<Rightarrow> string \<Rightarrow> core_Result \<Rightarrow> 'm effects \<Rightarrow> 'm effects" where
  "SignCompleted s started action result st =
     (fst st @ [Call_SignCompleted started action result],
      monitor_SignCompleted s started action result (snd st))"

text \<open>\<open>return result, sig\<close>.\<close>

definition return :: "core_Result \<Rightarrow> slice \<Rightarrow> 'm effects \<Rightarrow> 'm run" where
  "return result sig st =
     \<lparr>outcome = result, signature = sig, calls = fst st, monitor_state = snd st\<rparr>"

subsection \<open>SignBeaconAttestation\<close>

text \<open>
  \<open>SignBeaconAttestation\<close> (signbeaconattestation.go, lines 43-157), branch by branch.
  \<open>started\<close> is the reading of \<open>time.Now()\<close> on entry, \<open>m\<close> the state of the monitor
  on entry.
\<close>

definition SignBeaconAttestation ::
    "Package \<Rightarrow> 'm Service \<Rightarrow> time \<Rightarrow> Credentials option \<Rightarrow> string \<Rightarrow> slice \<Rightarrow>
     SignBeaconAttestationData option \<Rightarrow> 'm \<Rightarrow> 'm run" where
  "SignBeaconAttestation pkg s started credentials accountName pubKey data m =
    (let st0 = ([], m) in
     case credentials of
       None \<Rightarrow> return ResultFailed None st0
     | Some cred \<Rightarrow>
     (case data of
       None \<Rightarrow>
         return ResultDenied None (SignCompleted s started ''attestation'' ResultDenied st0)
     | Some d \<Rightarrow>
       if SignBeaconAttestationData.BeaconBlockRoot d = None then
         return ResultDenied None (SignCompleted s started ''attestation'' ResultDenied st0)
       else if SignBeaconAttestationData.Domain d = None then
         return ResultDenied None (SignCompleted s started ''attestation'' ResultDenied st0)
       else
       (case SignBeaconAttestationData.Source d of
         None \<Rightarrow>
           return ResultDenied None (SignCompleted s started ''attestation'' ResultDenied st0)
       | Some source \<Rightarrow>
         if rules_Checkpoint.Root source = None then
           return ResultDenied None (SignCompleted s started ''attestation'' ResultDenied st0)
         else
         (case SignBeaconAttestationData.Target d of
           None \<Rightarrow>
             return ResultDenied None (SignCompleted s started ''attestation'' ResultDenied st0)
         | Some target \<Rightarrow>
           if rules_Checkpoint.Root target = None then
             return ResultDenied None (SignCompleted s started ''attestation'' ResultDenied st0)
           else
           (let (wallet, account, checkRes) =
                  preCheck s cred accountName pubKey (ActionSignBeaconAttestation pkg);
                st1 = called (Call_preCheck cred accountName pubKey
                                (ActionSignBeaconAttestation pkg)) st0
            in
            if checkRes \<noteq> ResultSucceeded then
              return checkRes None (SignCompleted s started ''attestation'' checkRes st1)
            else
            (let result = ruler_RunRules s cred (ActionSignBeaconAttestation pkg)
                            (Wallet.Name wallet) (Account.Name account)
                            (Account.PublicKey account) d;
                 st2 = called (Call_RunRules cred (ActionSignBeaconAttestation pkg)
                                 (Wallet.Name wallet) (Account.Name account)
                                 (Account.PublicKey account) d) st1
             in
             if result = DENIED then
               return ResultDenied None (SignCompleted s started ''attestation'' ResultDenied st2)
             else if result = FAILED then
               return ResultFailed None (SignCompleted s started ''attestation'' ResultFailed st2)
             else
             (let attestation =
                    \<lparr>BeaconAttestation.Slot = SignBeaconAttestationData.Slot d,
                     BeaconAttestation.CommitteeIndex = SignBeaconAttestationData.CommitteeIndex d,
                     BeaconAttestation.BeaconBlockRoot = SignBeaconAttestationData.BeaconBlockRoot d,
                     BeaconAttestation.Source =
                       Some \<lparr>Checkpoint.Epoch = rules_Checkpoint.Epoch source,
                             Checkpoint.Root = rules_Checkpoint.Root source\<rparr>,
                     BeaconAttestation.Target =
                       Some \<lparr>Checkpoint.Epoch = rules_Checkpoint.Epoch target,
                             Checkpoint.Root = rules_Checkpoint.Root target\<rparr>\<rparr>;
                  (signingRoot, err) =
                    generateSigningRootFromData pkg attestation
                      (SignBeaconAttestationData.Domain d);
                  st3 = called (Call_generateSigningRootFromData attestation
                                  (SignBeaconAttestationData.Domain d)) st2
              in
              if err \<noteq> None then
                return ResultFailed None (SignCompleted s started ''attestation'' ResultFailed st3)
              else
              (let (signature, err) = signRoot pkg account signingRoot;
                   st4 = called (Call_signRoot account signingRoot) st3
               in
               if err \<noteq> None then
                 return ResultFailed None
                   (SignCompleted s started ''attestation'' ResultFailed st4)
               else
                 return ResultSucceeded signature
                   (SignCompleted s started ''attestation'' ResultSucceeded st4)))))))))"


subsection \<open>Collaborators that write the request or do not return\<close>

text \<open>
  The definition above is the function for a rule engine that leaves the request as it
  found it and a monitor that returns from every call. The Go code asks for neither:
  \<^item> line 113 hands \<open>RunRules\<close> the pointer \<open>data\<close>, and lines 126-141 read
    \<open>data.Slot\<close>, \<open>data.Source.Epoch\<close>, ..., \<open>data.Domain\<close> through it after the call,
    so what is copied and signed is the request as the rule providers leave it;
    \<open>any_RunRules\<close> returns the verdict together with that request;
  \<^item> lines 131 and 135 dereference \<open>data.Source\<close> and \<open>data.Target\<close> again: if a
    provider has set one of them to \<open>nil\<close>, the function panics;
  \<^item> every call \<open>s.monitor.SignCompleted(...)\<close> is synchronous and nothing recovers
    from it, so the \<open>return\<close> on the next line is reached only if the call returns;
    \<open>any_SignCompleted\<close> answers \<open>None\<close> when the call panics or never returns.
  \<open>SignBeaconAttestation_any\<close> is the same function, branch by branch, with these
  collaborators. A run records in \<open>returned\<close> the pair the function returned, \<open>None\<close>
  when it did not return; in \<open>trace\<close> the calls made; in \<open>monitor_after\<close> the state of
  the monitor, \<open>None\<close> once a call to it has not returned.
\<close>

record 'm Service_any =
  any_SignCompleted :: "time \<Rightarrow> string \<Rightarrow> core_Result \<Rightarrow> 'm \<Rightarrow> 'm option"
  any_RunRules ::
    "Credentials \<Rightarrow> string \<Rightarrow> string \<Rightarrow> string \<Rightarrow> bytes \<Rightarrow> SignBeaconAttestationData \<Rightarrow>
     Result \<times> SignBeaconAttestationData"
  any_preCheck :: "Credentials \<Rightarrow> string \<Rightarrow> slice \<Rightarrow> string \<Rightarrow> Wallet \<times> Account \<times> core_Result"

record 'm run_any =
  returned :: "(core_Result \<times> slice) option"
  trace :: "event list"
  monitor_after :: "'m option"

text \<open>
  \<open>s.monitor.SignCompleted(started, action, result)\<close>, which may not return.
\<close>

definition SignCompleted_any ::
    "'m Service_any \<Rightarrow> time \<Rightarrow> string \<Rightarrow> core_Result \<Rightarrow> ('m option) effects \<Rightarrow>
     ('m option) effects" where
  "SignCompleted_any s started action result st =
     (fst st @ [Call_SignCompleted started action result],
      Option.bind (snd st) (any_SignCompleted s started action result))"

text \<open>
  \<open>return result, sig\<close>, reached only when the call before it has returned.
\<close>

definition return_any :: "core_Result \<Rightarrow> slice \<Rightarrow> ('m option) effects \<Rightarrow> 'm run_any" where
  "return_any result sig st =
     \<lparr>returned = (case snd st of None \<Rightarrow> None | Some m \<Rightarrow> Some (result, sig)),
      trace = fst st, monitor_after = snd st\<rparr>"

text \<open>
  A \<open>nil\<close> pointer dereference: the function does not return.
\<close>

definition panic_any :: "('m option) effects \<Rightarrow> 'm run_any" where
  "panic_any st = \<lparr>returned = None, trace = fst st, monitor_after = snd st\<rparr>"

definition SignBeaconAttestation_any ::
    "Package \<Rightarrow> 'm Service_any \<Rightarrow> time \<Rightarrow> Credentials option \<Rightarrow> string \<Rightarrow> slice \<Rightarrow>
     SignBeaconAttestationData option \<Rightarrow> 'm \<Rightarrow> 'm run_any" where
  "SignBeaconAttestation_any pkg s started credentials accountName pubKey data m =
    (let st0 = ([], Some m) in
     case credentials of
       None \<Rightarrow> return_any ResultFailed None st0
     | Some cred \<Rightarrow>
     (case data of
       None \<Rightarrow>
         return_any ResultDenied None
           (SignCompleted_any s started ''attestation'' ResultDenied st0)
     | Some d \<Rightarrow>
       if SignBeaconAttestationData.BeaconBlockRoot d = None then
         return_any ResultDenied None
           (SignCompleted_any s started ''attestation'' ResultDenied st0)
       else if SignBeaconAttestationData.Domain d = None then
         return_any ResultDenied None
           (SignCompleted_any s started ''attestation'' ResultDenied st0)
       else
       (case SignBeaconAttestationData.Source d of
         None \<Rightarrow>
           return_any ResultDenied None
             (SignCompleted_any s started ''attestation'' ResultDenied st0)
       | Some source \<Rightarrow>
         if rules_Checkpoint.Root source = None then
           return_any ResultDenied None
             (SignCompleted_any s started ''attestation'' ResultDenied st0)
         else
         (case SignBeaconAttestationData.Target d of
           None \<Rightarrow>
             return_any ResultDenied None
               (SignCompleted_any s started ''attestation'' ResultDenied st0)
         | Some target \<Rightarrow>
           if rules_Checkpoint.Root target = None then
             return_any ResultDenied None
               (SignCompleted_any s started ''attestation'' ResultDenied st0)
           else
           (let (wallet, account, checkRes) =
                  any_preCheck s cred accountName pubKey (ActionSignBeaconAttestation pkg);
                st1 = called (Call_preCheck cred accountName pubKey
                                (ActionSignBeaconAttestation pkg)) st0
            in
            if checkRes \<noteq> ResultSucceeded then
              return_any checkRes None
                (SignCompleted_any s started ''attestation'' checkRes st1)
            else
            (let (result, d') =
                   any_RunRules s cred (ActionSignBeaconAttestation pkg)
                     (Wallet.Name wallet) (Account.Name account)
                     (Account.PublicKey account) d;
                 st2 = called (Call_RunRules cred (ActionSignBeaconAttestation pkg)
                                 (Wallet.Name wallet) (Account.Name account)
                                 (Account.PublicKey account) d) st1
             in
             if result = DENIED then
               return_any ResultDenied None
                 (SignCompleted_any s started ''attestation'' ResultDenied st2)
             else if result = FAILED then
               return_any ResultFailed None
                 (SignCompleted_any s started ''attestation'' ResultFailed st2)
             else
             (case SignBeaconAttestationData.Source d' of
               None \<Rightarrow> panic_any st2
             | Some source' \<Rightarrow>
             (case SignBeaconAttestationData.Target d' of
               None \<Rightarrow> panic_any st2
             | Some target' \<Rightarrow>
             (let attestation =
                    \<lparr>BeaconAttestation.Slot = SignBeaconAttestationData.Slot d',
                     BeaconAttestation.CommitteeIndex =
                       SignBeaconAttestationData.CommitteeIndex d',
                     BeaconAttestation.BeaconBlockRoot =
                       SignBeaconAttestationData.BeaconBlockRoot d',
                     BeaconAttestation.Source =
                       Some \<lparr>Checkpoint.Epoch = rules_Checkpoint.Epoch source',
                             Checkpoint.Root = rules_Checkpoint.Root source'\<rparr>,
                     BeaconAttestation.Target =
                       Some \<lparr>Checkpoint.Epoch = rules_Checkpoint.Epoch target',
                             Checkpoint.Root = rules_Checkpoint.Root target'\<rparr>\<rparr>;
                  (signingRoot, err) =
                    generateSigningRootFromData pkg attestation
                      (SignBeaconAttestationData.Domain d');
                  st3 = called (Call_generateSigningRootFromData attestation
                                  (SignBeaconAttestationData.Domain d')) st2
              in
              if err \<noteq> None then
                return_any ResultFailed None
                  (SignCompleted_any s started ''attestation'' ResultFailed st3)
              else
              (let (signature, err) = signRoot pkg account signingRoot;
                   st4 = called (Call_signRoot account signingRoot) st3
               in
               if err \<noteq> None then
                 return_any ResultFailed None
                   (SignCompleted_any s started ''attestation'' ResultFailed st4)
               else
                 return_any ResultSucceeded signature
                   (SignCompleted_any s started ''attestation'' ResultSucceeded
                      st4)))))))))))"

subsection \<open>Notions used to state the properties\<close>

text \<open>
  The \<open>Check input\<close> block (lines 67-102) lets a request through exactly when the data
  pointer, the beacon block root, the domain, the two checkpoint pointers and the two
  checkpoint roots are all different from \<open>nil\<close>. \<open>validated\<close> names the two checkpoints
  the pointers lead to; \<open>input_complete\<close> is the same test on the data pointer itself.
\<close>

definition validated ::
    "SignBeaconAttestationData \<Rightarrow> rules_Checkpoint \<Rightarrow> rules_Checkpoint \<Rightarrow> bool" where
  "validated d source target \<longleftrightarrow>
     SignBeaconAttestationData.BeaconBlockRoot d \<noteq> None \<and>
     SignBeaconAttestationData.Domain d \<noteq> None \<and>
     SignBeaconAttestationData.Source d = Some source \<and>
     rules_Checkpoint.Root source \<noteq> None \<and>
     SignBeaconAttestationData.Target d = Some target \<and>
     rules_Checkpoint.Root target \<noteq> None"

definition input_complete :: "SignBeaconAttestationData option \<Rightarrow> bool" where
  "input_complete data =
     (case data of None \<Rightarrow> False | Some d \<Rightarrow>
        SignBeaconAttestationData.BeaconBlockRoot d \<noteq> None \<and>
        SignBeaconAttestationData.Domain d \<noteq> None \<and>
        (case SignBeaconAttestationData.Source d of None \<Rightarrow> False
         | Some source \<Rightarrow> rules_Checkpoint.Root source \<noteq> None) \<and>
        (case SignBeaconAttestationData.Target d of None \<Rightarrow> False
         | Some target \<Rightarrow> rules_Checkpoint.Root target \<noteq> None))"

text \<open>The struct literal of lines 126-138, written once for the statements below.\<close>

abbreviation (input) local_copy ::
    "SignBeaconAttestationData \<Rightarrow> rules_Checkpoint \<Rightarrow> rules_Checkpoint \<Rightarrow> BeaconAttestation" where
  "local_copy d source target \<equiv>
     \<lparr>BeaconAttestation.Slot = SignBeaconAttestationData.Slot d,
      BeaconAttestation.CommitteeIndex = SignBeaconAttestationData.CommitteeIndex d,
      BeaconAttestation.BeaconBlockRoot = SignBeaconAttestationData.BeaconBlockRoot d,
      BeaconAttestation.Source =
        Some \<lparr>Checkpoint.Epoch = rules_Checkpoint.Epoch source,
              Checkpoint.Root = rules_Checkpoint.Root source\<rparr>,
      BeaconAttestation.Target =
        Some \<lparr>Checkpoint.Epoch = rules_Checkpoint.Epoch target,
              Checkpoint.Root = rules_Checkpoint.Root target\<rparr>\<rparr>"

text \<open>Go's \<open>len\<close> of a byte slice; the \<open>nil\<close> slice has length 0.\<close>

definition len :: "slice \<Rightarrow> nat" where
  "len b = (case b of None \<Rightarrow> 0 | Some bs \<Rightarrow> length bs)"

text \<open>
  An exit of \<open>SignBeaconAttestation_any\<close> that records completion with the monitor and
  then returns, written once for the statements below.
\<close>

abbreviation (input) metered_exit ::
    "'m Service_any \<Rightarrow> time \<Rightarrow> core_Result \<Rightarrow> slice \<Rightarrow> event list \<Rightarrow> 'm \<Rightarrow> 'm run_any" where
  "metered_exit s started result sig cs m \<equiv>
     \<lparr>returned = (case any_SignCompleted s started ''attestation'' result m of
                    None \<Rightarrow> None | Some m' \<Rightarrow> Some (result, sig)),
      trace = cs @ [Call_SignCompleted started ''attestation'' result],
      monitor_after = any_SignCompleted s started ''attestation'' result m\<rparr>"

text \<open>
  The collaborators of the first definition, seen as collaborators of the second: the
  rule engine leaves the request unchanged and the monitor returns.
\<close>

definition behaved :: "'m Service \<Rightarrow> 'm Service_any" where
  "behaved s =
     \<lparr>any_SignCompleted =
        (\<lambda>started action result m. Some (monitor_SignCompleted s started action result m)),
      any_RunRules =
        (\<lambda>cred action walletName accountName key d.
           (ruler_RunRules s cred action walletName accountName key d, d)),
      any_preCheck = preCheck s\<rparr>"

text \<open>
  Modelled from the spec: \<open>signRoot\<close> (called on line 147) is a function of this
  package that is not among the sources. The spec's signer boundary is
  \<open>sign(accountHandle, digest) -> signatureBytes | error\<close>: a call that returns no error
  returns the bytes of a signature, and a signature is not empty.
\<close>

definition signer_contract :: "Package \<Rightarrow> bool" where
  "signer_contract pkg \<longleftrightarrow>
     (\<forall>account signingRoot sig.
        signRoot pkg account signingRoot = (sig, None) \<longrightarrow> 0 < len sig)"

subsection \<open>A concrete request and stub collaborators\<close>

text \<open>
  The request of the end-to-end scenario: slot 100, committee index 0, a beacon block
  root of 31 zero bytes followed by 1, source checkpoint (10, 32 bytes 0xAA), target
  checkpoint (11, 32 bytes 0xBB), domain 32 bytes 0x01. The stub collaborators answer
  every call with a fixed value; the two monitors keep a list of the records they were
  given, or only count them.
\<close>

definition example_credentials :: Credentials where
  "example_credentials = \<lparr>RequestID = ''request-1'', Client = ''client-1''\<rparr>"

definition example_source :: rules_Checkpoint where
  "example_source =
     \<lparr>rules_Checkpoint.Epoch = 10, rules_Checkpoint.Root = Some (replicate 32 0xAA)\<rparr>"

definition example_target :: rules_Checkpoint where
  "example_target =
     \<lparr>rules_Checkpoint.Epoch = 11, rules_Checkpoint.Root = Some (replicate 32 0xBB)\<rparr>"

definition example_data :: SignBeaconAttestationData where
  "example_data =
     \<lparr>SignBeaconAttestationData.Domain = Some (replicate 32 0x01),
      SignBeaconAttestationData.Slot = 100,
      SignBeaconAttestationData.CommitteeIndex = 0,
      SignBeaconAttestationData.BeaconBlockRoot = Some (replicate 31 0x00 @ [0x01]),
      SignBeaconAttestationData.Source = Some example_source,
      SignBeaconAttestationData.Target = Some example_target\<rparr>"

definition example_wallet :: Wallet where
  "example_wallet = \<lparr>Wallet.Name = ''wallet''\<rparr>"

definition example_account :: Account where
  "example_account = \<lparr>Account.Name = ''account'', Account.PublicKey = replicate 48 0x0C\<rparr>"

definition example_root :: bytes where
  "example_root = replicate 32 0x5A"

definition example_signature :: bytes where
  "example_signature = replicate 96 0x07"

definition stub_package :: "bytes \<times> error option \<Rightarrow> slice \<times> error option \<Rightarrow> Package" where
  "stub_package root sig =
     \<lparr>ActionSignBeaconAttestation = ''Sign beacon attestation'',
      generateSigningRootFromData = (\<lambda>attestation domain. root),
      signRoot = (\<lambda>account signingRoot. sig)\<rparr>"

definition recording_monitor ::
    "time \<Rightarrow> string \<Rightarrow> core_Result \<Rightarrow> (time \<times> string \<times> core_Result) list \<Rightarrow>
     (time \<times> string \<times> core_Result) list" where
  "recording_monitor started action result records = records @ [(started, action, result)]"


definition stub_service ::
    "(time \<Rightarrow> string \<Rightarrow> core_Result \<Rightarrow> 'm \<Rightarrow> 'm) \<Rightarrow> core_Result \<Rightarrow> Result \<Rightarrow> 'm Service" where
  "stub_service mon checkRes verdict =
     \<lparr>monitor_SignCompleted = mon,
      ruler_RunRules = (\<lambda>cred action walletName accountName key d. verdict),
      preCheck = (\<lambda>cred accountName key action. (example_wallet, example_account, checkRes))\<rparr>"

text \<open>The same request with the target root omitted.\<close>

definition example_data_no_target_root :: SignBeaconAttestationData where
  "example_data_no_target_root =
     example_data\<lparr>SignBeaconAttestationData.Target :=
       Some (example_target\<lparr>rules_Checkpoint.Root := None\<rparr>)\<rparr>"

text \<open>The same request with a target root that is present and empty.\<close>

definition example_data_empty_target_root :: SignBeaconAttestationData where
  "example_data_empty_target_root =
     example_data\<lparr>SignBeaconAttestationData.Target :=
       Some (example_target\<lparr>rules_Checkpoint.Root := Some []\<rparr>)\<rparr>"

text \<open>
  \<open>example_run\<close> is the pipeline on the example credentials at time 0, with a resolver
  answering \<open>checkRes\<close>, a ruler answering \<open>verdict\<close>, a root deriver answering \<open>root\<close>,
  a signer answering \<open>sig\<close>, and the recording monitor, empty on entry.
\<close>

definition example_run ::
    "core_Result \<Rightarrow> Result \<Rightarrow> bytes \<times> error option \<Rightarrow> slice \<times> error option \<Rightarrow>
     SignBeaconAttestationData option \<Rightarrow> (time \<times> string \<times> core_Result) list run" where
  "example_run checkRes verdict root sig data =
     SignBeaconAttestation (stub_package root sig)
       (stub_service recording_monitor checkRes verdict)
       0 (Some example_credentials) ''wallet/account'' None data []"


definition raise_slot :: "SignBeaconAttestationData \<Rightarrow> SignBeaconAttestationData" where
  "raise_slot d = d\<lparr>SignBeaconAttestationData.Slot := 101\<rparr>"

definition stub_service_any ::
    "(time \<Rightarrow> string \<Rightarrow> core_Result \<Rightarrow> 'm \<Rightarrow> 'm option) \<Rightarrow> core_Result \<Rightarrow> Result \<Rightarrow>
     (SignBeaconAttestationData \<Rightarrow> SignBeaconAttestationData) \<Rightarrow> 'm Service_any" where
  "stub_service_any mon checkRes verdict write =
     \<lparr>any_SignCompleted = mon,
      any_RunRules = (\<lambda>cred action walletName accountName key d. (verdict, write d)),
      any_preCheck = (\<lambda>cred accountName key action. (example_wallet, example_account, checkRes))\<rparr>"

definition example_run_any ::
    "(time \<Rightarrow> string \<Rightarrow> core_Result \<Rightarrow> 'm \<Rightarrow> 'm option) \<Rightarrow>
     (SignBeaconAttestationData \<Rightarrow> SignBeaconAttestationData) \<Rightarrow> 'm \<Rightarrow> 'm run_any" where
  "example_run_any mon write m =
     SignBeaconAttestation_any (stub_package (example_root, None) (Some example_signature, None))
       (stub_service_any mon ResultSucceeded APPROVED write)
       0 (Some example_credentials) ''wallet/account'' None (Some example_data) m"

definition returning :: "(time \<Rightarrow> string \<Rightarrow> core_Result \<Rightarrow> 'm \<Rightarrow> 'm) \<Rightarrow>
    time \<Rightarrow> string \<Rightarrow> core_Result \<Rightarrow> 'm \<Rightarrow> 'm option" where
  "returning mon started action result m = Some (mon started action result m)"

section \<open>The exits of the pipeline\<close>

text \<open>
  One lemma for each exit of the function, giving the whole run, and a case rule that says
  every execution leaves through one of them.
\<close>

lemmas effects_defs = return_def SignCompleted_def called_def

lemmas example_defs = example_run_def example_credentials_def example_data_def
  example_source_def example_target_def example_wallet_def example_account_def
  stub_package_def stub_service_def recording_monitor_def

lemmas eval_defs = SignBeaconAttestation_def effects_defs Let_def example_defs
  UNKNOWN_def APPROVED_def DENIED_def FAILED_def

lemmas any_defs = SignBeaconAttestation_any_def return_any_def SignCompleted_any_def
  panic_any_def called_def Let_def

lemmas any_eval_defs = example_run_any_def stub_service_any_def returning_def any_defs
  example_credentials_def example_data_def example_source_def example_target_def
  example_wallet_def example_account_def stub_package_def recording_monitor_def
  UNKNOWN_def APPROVED_def DENIED_def FAILED_def

lemma input_complete_iff:
  "input_complete data \<longleftrightarrow> (\<exists>d source target. data = Some d \<and> validated d source target)"
  by (auto simp: input_complete_def validated_def split: option.splits)

lemma no_credentials_exit:
  "SignBeaconAttestation pkg s started None accountName pubKey data m =
     \<lparr>outcome = ResultFailed, signature = None, calls = [], monitor_state = m\<rparr>"
  by (simp add: SignBeaconAttestation_def return_def)

lemma input_denied_exit:
  "\<not> input_complete data \<Longrightarrow>
   SignBeaconAttestation pkg s started (Some cred) accountName pubKey data m =
     \<lparr>outcome = ResultDenied, signature = None,
      calls = [Call_SignCompleted started ''attestation'' ResultDenied],
      monitor_state = monitor_SignCompleted s started ''attestation'' ResultDenied m\<rparr>"
  by (cases data; cases "SignBeaconAttestationData.Source (the data)";
      cases "SignBeaconAttestationData.Target (the data)")
     (auto simp add: SignBeaconAttestation_def input_complete_def effects_defs Let_def
      cong: option.case_cong_weak)

lemma check_failed_exit:
  "validated d source target \<Longrightarrow>
   preCheck s cred accountName pubKey (ActionSignBeaconAttestation pkg) = (wallet, account, checkRes) \<Longrightarrow>
   checkRes \<noteq> ResultSucceeded \<Longrightarrow>
   SignBeaconAttestation pkg s started (Some cred) accountName pubKey (Some d) m =
     \<lparr>outcome = checkRes, signature = None,
      calls = [Call_preCheck cred accountName pubKey (ActionSignBeaconAttestation pkg),
               Call_SignCompleted started ''attestation'' checkRes],
      monitor_state = monitor_SignCompleted s started ''attestation'' checkRes m\<rparr>"
  by (simp add: SignBeaconAttestation_def validated_def effects_defs Let_def)

lemma rules_denied_exit:
  "validated d source target \<Longrightarrow>
   preCheck s cred accountName pubKey (ActionSignBeaconAttestation pkg) = (wallet, account, ResultSucceeded) \<Longrightarrow>
   ruler_RunRules s cred (ActionSignBeaconAttestation pkg) (Wallet.Name wallet)
     (Account.Name account) (Account.PublicKey account) d = DENIED \<Longrightarrow>
   SignBeaconAttestation pkg s started (Some cred) accountName pubKey (Some d) m =
     \<lparr>outcome = ResultDenied, signature = None,
      calls = [Call_preCheck cred accountName pubKey (ActionSignBeaconAttestation pkg),
               Call_RunRules cred (ActionSignBeaconAttestation pkg) (Wallet.Name wallet)
                 (Account.Name account) (Account.PublicKey account) d,
               Call_SignCompleted started ''attestation'' ResultDenied],
      monitor_state = monitor_SignCompleted s started ''attestation'' ResultDenied m\<rparr>"
  by (simp add: SignBeaconAttestation_def validated_def effects_defs Let_def)

lemma rules_failed_exit:
  "validated d source target \<Longrightarrow>
   preCheck s cred accountName pubKey (ActionSignBeaconAttestation pkg) = (wallet, account, ResultSucceeded) \<Longrightarrow>
   ruler_RunRules s cred (ActionSignBeaconAttestation pkg) (Wallet.Name wallet)
     (Account.Name account) (Account.PublicKey account) d = FAILED \<Longrightarrow>
   SignBeaconAttestation pkg s started (Some cred) accountName pubKey (Some d) m =
     \<lparr>outcome = ResultFailed, signature = None,
      calls = [Call_preCheck cred accountName pubKey (ActionSignBeaconAttestation pkg),
               Call_RunRules cred (ActionSignBeaconAttestation pkg) (Wallet.Name wallet)
                 (Account.Name account) (Account.PublicKey account) d,
               Call_SignCompleted started ''attestation'' ResultFailed],
      monitor_state = monitor_SignCompleted s started ''attestation'' ResultFailed m\<rparr>"
  by (simp add: SignBeaconAttestation_def validated_def effects_defs Let_def DENIED_def FAILED_def)

lemma root_error_exit:
  "validated d source target \<Longrightarrow>
   preCheck s cred accountName pubKey (ActionSignBeaconAttestation pkg) = (wallet, account, ResultSucceeded) \<Longrightarrow>
   ruler_RunRules s cred (ActionSignBeaconAttestation pkg) (Wallet.Name wallet)
     (Account.Name account) (Account.PublicKey account) d = result \<Longrightarrow>
   result \<noteq> DENIED \<Longrightarrow> result \<noteq> FAILED \<Longrightarrow>
   generateSigningRootFromData pkg (local_copy d source target)
     (SignBeaconAttestationData.Domain d) = (signingRoot, Some e) \<Longrightarrow>
   SignBeaconAttestation pkg s started (Some cred) accountName pubKey (Some d) m =
     \<lparr>outcome = ResultFailed, signature = None,
      calls = [Call_preCheck cred accountName pubKey (ActionSignBeaconAttestation pkg),
               Call_RunRules cred (ActionSignBeaconAttestation pkg) (Wallet.Name wallet)
                 (Account.Name account) (Account.PublicKey account) d,
               Call_generateSigningRootFromData (local_copy d source target)
                 (SignBeaconAttestationData.Domain d),
               Call_SignCompleted started ''attestation'' ResultFailed],
      monitor_state = monitor_SignCompleted s started ''attestation'' ResultFailed m\<rparr>"
  by (simp add: SignBeaconAttestation_def validated_def effects_defs Let_def)

lemma sign_error_exit:
  "validated d source target \<Longrightarrow>
   preCheck s cred accountName pubKey (ActionSignBeaconAttestation pkg) = (wallet, account, ResultSucceeded) \<Longrightarrow>
   ruler_RunRules s cred (ActionSignBeaconAttestation pkg) (Wallet.Name wallet)
     (Account.Name account) (Account.PublicKey account) d = result \<Longrightarrow>
   result \<noteq> DENIED \<Longrightarrow> result \<noteq> FAILED \<Longrightarrow>
   generateSigningRootFromData pkg (local_copy d source target)
     (SignBeaconAttestationData.Domain d) = (signingRoot, None) \<Longrightarrow>
   signRoot pkg account signingRoot = (sig, Some e) \<Longrightarrow>
   SignBeaconAttestation pkg s started (Some cred) accountName pubKey (Some d) m =
     \<lparr>outcome = ResultFailed, signature = None,
      calls = [Call_preCheck cred accountName pubKey (ActionSignBeaconAttestation pkg),
               Call_RunRules cred (ActionSignBeaconAttestation pkg) (Wallet.Name wallet)
                 (Account.Name account) (Account.PublicKey account) d,
               Call_generateSigningRootFromData (local_copy d source target)
                 (SignBeaconAttestationData.Domain d),
               Call_signRoot account signingRoot,
               Call_SignCompleted started ''attestation'' ResultFailed],
      monitor_state = monitor_SignCompleted s started ''attestation'' ResultFailed m\<rparr>"
  by (simp add: SignBeaconAttestation_def validated_def effects_defs Let_def)

lemma signed_exit:
  "validated d source target \<Longrightarrow>
   preCheck s cred accountName pubKey (ActionSignBeaconAttestation pkg) = (wallet, account, ResultSucceeded) \<Longrightarrow>
   ruler_RunRules s cred (ActionSignBeaconAttestation pkg) (Wallet.Name wallet)
     (Account.Name account) (Account.PublicKey account) d = result \<Longrightarrow>
   result \<noteq> DENIED \<Longrightarrow> result \<noteq> FAILED \<Longrightarrow>
   generateSigningRootFromData pkg (local_copy d source target)
     (SignBeaconAttestationData.Domain d) = (signingRoot, None) \<Longrightarrow>
   signRoot pkg account signingRoot = (sig, None) \<Longrightarrow>
   SignBeaconAttestation pkg s started (Some cred) accountName pubKey (Some d) m =
     \<lparr>outcome = ResultSucceeded, signature = sig,
      calls = [Call_preCheck cred accountName pubKey (ActionSignBeaconAttestation pkg),
               Call_RunRules cred (ActionSignBeaconAttestation pkg) (Wallet.Name wallet)
                 (Account.Name account) (Account.PublicKey account) d,
               Call_generateSigningRootFromData (local_copy d source target)
                 (SignBeaconAttestationData.Domain d),
               Call_signRoot account signingRoot,
               Call_SignCompleted started ''attestation'' ResultSucceeded],
      monitor_state = monitor_SignCompleted s started ''attestation'' ResultSucceeded m\<rparr>"
  by (simp add: SignBeaconAttestation_def validated_def effects_defs Let_def)


lemma SignBeaconAttestation_cases
  [case_names no_credentials input_denied check_failed rules_denied rules_failed
     root_error sign_error signed]:
  fixes pkg :: Package and s :: "'m Service"
  obtains
    "credentials = None"
    "SignBeaconAttestation pkg s started credentials accountName pubKey data m =
       \<lparr>outcome = ResultFailed, signature = None, calls = [], monitor_state = m\<rparr>"
  | cred where
    "credentials = Some cred" "\<not> input_complete data"
    "SignBeaconAttestation pkg s started credentials accountName pubKey data m =
       \<lparr>outcome = ResultDenied, signature = None,
        calls = [Call_SignCompleted started ''attestation'' ResultDenied],
        monitor_state = monitor_SignCompleted s started ''attestation'' ResultDenied m\<rparr>"
  | cred d source target wallet account checkRes where
    "credentials = Some cred" "data = Some d" "validated d source target"
    "preCheck s cred accountName pubKey (ActionSignBeaconAttestation pkg) =
       (wallet, account, checkRes)"
    "checkRes \<noteq> ResultSucceeded"
    "SignBeaconAttestation pkg s started credentials accountName pubKey data m =
       \<lparr>outcome = checkRes, signature = None,
        calls = [Call_preCheck cred accountName pubKey (ActionSignBeaconAttestation pkg),
                 Call_SignCompleted started ''attestation'' checkRes],
        monitor_state = monitor_SignCompleted s started ''attestation'' checkRes m\<rparr>"
  | cred d source target wallet account where
    "credentials = Some cred" "data = Some d" "validated d source target"
    "preCheck s cred accountName pubKey (ActionSignBeaconAttestation pkg) =
       (wallet, account, ResultSucceeded)"
    "ruler_RunRules s cred (ActionSignBeaconAttestation pkg) (Wallet.Name wallet)
       (Account.Name account) (Account.PublicKey account) d = DENIED"
    "SignBeaconAttestation pkg s started credentials accountName pubKey data m =
       \<lparr>outcome = ResultDenied, signature = None,
        calls = [Call_preCheck cred accountName pubKey (ActionSignBeaconAttestation pkg),
                 Call_RunRules cred (ActionSignBeaconAttestation pkg) (Wallet.Name wallet)
                   (Account.Name account) (Account.PublicKey account) d,
                 Call_SignCompleted started ''attestation'' ResultDenied],
        monitor_state = monitor_SignCompleted s started ''attestation'' ResultDenied m\<rparr>"
  | cred d source target wallet account where
    "credentials = Some cred" "data = Some d" "validated d source target"
    "preCheck s cred accountName pubKey (ActionSignBeaconAttestation pkg) =
       (wallet, account, ResultSucceeded)"
    "ruler_RunRules s cred (ActionSignBeaconAttestation pkg) (Wallet.Name wallet)
       (Account.Name account) (Account.PublicKey account) d = FAILED"
    "SignBeaconAttestation pkg s started credentials accountName pubKey data m =
       \<lparr>outcome = ResultFailed, signature = None,
        calls = [Call_preCheck cred accountName pubKey (ActionSignBeaconAttestation pkg),
                 Call_RunRules cred (ActionSignBeaconAttestation pkg) (Wallet.Name wallet)
                   (Account.Name account) (Account.PublicKey account) d,
                 Call_SignCompleted started ''attestation'' ResultFailed],
        monitor_state = monitor_SignCompleted s started ''attestation'' ResultFailed m\<rparr>"
  | cred d source target wallet account result signingRoot e where
    "credentials = Some cred" "data = Some d" "validated d source target"
    "preCheck s cred accountName pubKey (ActionSignBeaconAttestation pkg) =
       (wallet, account, ResultSucceeded)"
    "ruler_RunRules s cred (ActionSignBeaconAttestation pkg) (Wallet.Name wallet)
       (Account.Name account) (Account.PublicKey account) d = result"
    "result \<noteq> DENIED" "result \<noteq> FAILED"
    "generateSigningRootFromData pkg (local_copy d source target)
       (SignBeaconAttestationData.Domain d) = (signingRoot, Some e)"
    "SignBeaconAttestation pkg s started credentials accountName pubKey data m =
       \<lparr>outcome = ResultFailed, signature = None,
        calls = [Call_preCheck cred accountName pubKey (ActionSignBeaconAttestation pkg),
                 Call_RunRules cred (ActionSignBeaconAttestation pkg) (Wallet.Name wallet)
                   (Account.Name account) (Account.PublicKey account) d,
                 Call_generateSigningRootFromData (local_copy d source target)
                   (SignBeaconAttestationData.Domain d),
                 Call_SignCompleted started ''attestation'' ResultFailed],
        monitor_state = monitor_SignCompleted s started ''attestation'' ResultFailed m\<rparr>"
  | cred d source target wallet account result signingRoot sig e where
    "credentials = Some cred" "data = Some d" "validated d source target"
    "preCheck s cred accountName pubKey (ActionSignBeaconAttestation pkg) =
       (wallet, account, ResultSucceeded)"
    "ruler_RunRules s cred (ActionSignBeaconAttestation pkg) (Wallet.Name wallet)
       (Account.Name account) (Account.PublicKey account) d = result"
    "result \<noteq> DENIED" "result \<noteq> FAILED"
    "generateSigningRootFromData pkg (local_copy d source target)
       (SignBeaconAttestationData.Domain d) = (signingRoot, None)"
    "signRoot pkg account signingRoot = (sig, Some e)"
    "SignBeaconAttestation pkg s started credentials accountName pubKey data m =
       \<lparr>outcome = ResultFailed, signature = None,
        calls = [Call_preCheck cred accountName pubKey (ActionSignBeaconAttestation pkg),
                 Call_RunRules cred (ActionSignBeaconAttestation pkg) (Wallet.Name wallet)
                   (Account.Name account) (Account.PublicKey account) d,
                 Call_generateSigningRootFromData (local_copy d source target)
                   (SignBeaconAttestationData.Domain d),
                 Call_signRoot account signingRoot,
                 Call_SignCompleted started ''attestation'' ResultFailed],
        monitor_state = monitor_SignCompleted s started ''attestation'' ResultFailed m\<rparr>"
  | cred d source target wallet account result signingRoot sig where
    "credentials = Some cred" "data = Some d" "validated d source target"
    "preCheck s cred accountName pubKey (ActionSignBeaconAttestation pkg) =
       (wallet, account, ResultSucceeded)"
    "ruler_RunRules s cred (ActionSignBeaconAttestation pkg) (Wallet.Name wallet)
       (Account.Name account) (Account.PublicKey account) d = result"
    "result \<noteq> DENIED" "result \<noteq> FAILED"
    "generateSigningRootFromData pkg (local_copy d source target)
       (SignBeaconAttestationData.Domain d) = (signingRoot, None)"
    "signRoot pkg account signingRoot = (sig, None)"
    "SignBeaconAttestation pkg s started credentials accountName pubKey data m =
       \<lparr>outcome = ResultSucceeded, signature = sig,
        calls = [Call_preCheck cred accountName pubKey (ActionSignBeaconAttestation pkg),
                 Call_RunRules cred (ActionSignBeaconAttestation pkg) (Wallet.Name wallet)
                   (Account.Name account) (Account.PublicKey account) d,
                 Call_generateSigningRootFromData (local_copy d source target)
                   (SignBeaconAttestationData.Domain d),
                 Call_signRoot account signingRoot,
                 Call_SignCompleted started ''attestation'' ResultSucceeded],
        monitor_state = monitor_SignCompleted s started ''attestation'' ResultSucceeded m\<rparr>"
proof (cases credentials)
  case None
  then show ?thesis using that(1) by (simp add: no_credentials_exit)
next
  case (Some cred)
  note c = this
  show ?thesis
  proof (cases "input_complete data")
    case False
    then show ?thesis using that(2)[OF c] c by (simp add: input_denied_exit)
  next
    case True
    then obtain d source target where d: "data = Some d" and v: "validated d source target"
      unfolding input_complete_iff by blast
    obtain wallet account checkRes where
      pc: "preCheck s cred accountName pubKey (ActionSignBeaconAttestation pkg) =
             (wallet, account, checkRes)"
      by (rule prod_cases3)
    show ?thesis
    proof (cases "checkRes = ResultSucceeded")
      case False
      then show ?thesis
        using that(3)[OF c d v pc] check_failed_exit[OF v pc] c d by simp
    next
      case True
      note pc = pc[unfolded True]
      define result where "result =
        ruler_RunRules s cred (ActionSignBeaconAttestation pkg) (Wallet.Name wallet)
          (Account.Name account) (Account.PublicKey account) d"
      obtain signingRoot err where
        g: "generateSigningRootFromData pkg (local_copy d source target)
              (SignBeaconAttestationData.Domain d) = (signingRoot, err)"
        by (rule prod.exhaust)
      obtain sig err' where sr: "signRoot pkg account signingRoot = (sig, err')"
        by (rule prod.exhaust)
      consider "result = DENIED" | "result = FAILED"
        | e where "result \<noteq> DENIED" "result \<noteq> FAILED" "err = Some e"
        | e where "result \<noteq> DENIED" "result \<noteq> FAILED" "err = None" "err' = Some e"
        | "result \<noteq> DENIED" "result \<noteq> FAILED" "err = None" "err' = None"
        by (cases err; cases err') auto
      then show ?thesis
      proof cases
        case 1
        then show ?thesis
          using that(4)[OF c d v pc] rules_denied_exit[OF v pc] c d
          unfolding result_def by simp
      next
        case 2
        then show ?thesis
          using that(5)[OF c d v pc] rules_failed_exit[OF v pc] c d
          unfolding result_def by simp
      next
        case 3
        then show ?thesis
          using that(6)[OF c d v pc] root_error_exit[OF v pc] c d g
          unfolding result_def by simp
      next
        case 4
        then show ?thesis
          using that(7)[OF c d v pc] sign_error_exit[OF v pc] c d g sr
          unfolding result_def by simp
      next
        case 5
        then show ?thesis
          using that(8)[OF c d v pc] signed_exit[OF v pc] c d g sr
          unfolding result_def by simp
      qed
    qed
  qed
qed

lemma metered_once:
  assumes "r = SignBeaconAttestation pkg s started (Some cred) accountName pubKey data m"
  shows "filter is_SignCompleted (calls r) =
           [Call_SignCompleted started ''attestation'' (outcome r)]"
    and "monitor_state r = monitor_SignCompleted s started ''attestation'' (outcome r) m"
  using assms
  by (cases rule: SignBeaconAttestation_cases
        [where credentials = "Some cred" and pkg = pkg and s = s and started = started
           and accountName = accountName and pubKey = pubKey and data = data and m = m];
      simp)+

section \<open>The exits with collaborators that write or do not return\<close>

text \<open>
  The same two steps for \<open>SignBeaconAttestation_any\<close>: one lemma for each exit, the
  panic on a checkpoint pointer that a provider has set to \<open>nil\<close> among them, and the
  case rule. The last lemma says that the two definitions agree on collaborators that
  leave the request unchanged and return.
\<close>

lemma any_no_credentials_exit:
  "SignBeaconAttestation_any pkg s started None accountName pubKey data m =
     \<lparr>returned = Some (ResultFailed, None), trace = [], monitor_after = Some m\<rparr>"
  by (simp add: SignBeaconAttestation_any_def return_any_def)

lemma any_input_denied_exit:
  "\<not> input_complete data \<Longrightarrow>
   SignBeaconAttestation_any pkg s started (Some cred) accountName pubKey data m =
     metered_exit s started ResultDenied None [] m"
  by (cases data; cases "SignBeaconAttestationData.Source (the data)";
      cases "SignBeaconAttestationData.Target (the data)")
     (auto simp add: input_complete_def any_defs cong: option.case_cong_weak)

lemma any_check_failed_exit:
  "validated d source target \<Longrightarrow>
   any_preCheck s cred accountName pubKey (ActionSignBeaconAttestation pkg) =
     (wallet, account, checkRes) \<Longrightarrow>
   checkRes \<noteq> ResultSucceeded \<Longrightarrow>
   SignBeaconAttestation_any pkg s started (Some cred) accountName pubKey (Some d) m =
     metered_exit s started checkRes None
       [Call_preCheck cred accountName pubKey (ActionSignBeaconAttestation pkg)] m"
  by (simp add: validated_def any_defs)

lemma any_rules_denied_exit:
  "validated d source target \<Longrightarrow>
   any_preCheck s cred accountName pubKey (ActionSignBeaconAttestation pkg) =
     (wallet, account, ResultSucceeded) \<Longrightarrow>
   any_RunRules s cred (ActionSignBeaconAttestation pkg) (Wallet.Name wallet)
     (Account.Name account) (Account.PublicKey account) d = (DENIED, d') \<Longrightarrow>
   SignBeaconAttestation_any pkg s started (Some cred) accountName pubKey (Some d) m =
     metered_exit s started ResultDenied None
       [Call_preCheck cred accountName pubKey (ActionSignBeaconAttestation pkg),
        Call_RunRules cred (ActionSignBeaconAttestation pkg) (Wallet.Name wallet)
          (Account.Name account) (Account.PublicKey account) d] m"
  by (simp add: validated_def any_defs)

lemma any_rules_failed_exit:
  "validated d source target \<Longrightarrow>
   any_preCheck s cred accountName pubKey (ActionSignBeaconAttestation pkg) =
     (wallet, account, ResultSucceeded) \<Longrightarrow>
   any_RunRules s cred (ActionSignBeaconAttestation pkg) (Wallet.Name wallet)
     (Account.Name account) (Account.PublicKey account) d = (FAILED, d') \<Longrightarrow>
   SignBeaconAttestation_any pkg s started (Some cred) accountName pubKey (Some d) m =
     metered_exit s started ResultFailed None
       [Call_preCheck cred accountName pubKey (ActionSignBeaconAttestation pkg),
        Call_RunRules cred (ActionSignBeaconAttestation pkg) (Wallet.Name wallet)
          (Account.Name account) (Account.PublicKey account) d] m"
  by (simp add: validated_def any_defs DENIED_def FAILED_def)

lemma any_nil_checkpoint_panic:
  "validated d source target \<Longrightarrow>
   any_preCheck s cred accountName pubKey (ActionSignBeaconAttestation pkg) =
     (wallet, account, ResultSucceeded) \<Longrightarrow>
   any_RunRules s cred (ActionSignBeaconAttestation pkg) (Wallet.Name wallet)
     (Account.Name account) (Account.PublicKey account) d = (result, d') \<Longrightarrow>
   result \<noteq> DENIED \<Longrightarrow> result \<noteq> FAILED \<Longrightarrow>
   SignBeaconAttestationData.Source d' = None \<or> SignBeaconAttestationData.Target d' = None \<Longrightarrow>
   SignBeaconAttestation_any pkg s started (Some cred) accountName pubKey (Some d) m =
     \<lparr>returned = None,
      trace = [Call_preCheck cred accountName pubKey (ActionSignBeaconAttestation pkg),
               Call_RunRules cred (ActionSignBeaconAttestation pkg) (Wallet.Name wallet)
                 (Account.Name account) (Account.PublicKey account) d],
      monitor_after = Some m\<rparr>"
  by (auto simp add: validated_def any_defs split: option.splits)

lemma any_root_error_exit:
  "validated d source target \<Longrightarrow>
   any_preCheck s cred accountName pubKey (ActionSignBeaconAttestation pkg) =
     (wallet, account, ResultSucceeded) \<Longrightarrow>
   any_RunRules s cred (ActionSignBeaconAttestation pkg) (Wallet.Name wallet)
     (Account.Name account) (Account.PublicKey account) d = (result, d') \<Longrightarrow>
   result \<noteq> DENIED \<Longrightarrow> result \<noteq> FAILED \<Longrightarrow>
   SignBeaconAttestationData.Source d' = Some source' \<Longrightarrow>
   SignBeaconAttestationData.Target d' = Some target' \<Longrightarrow>
   generateSigningRootFromData pkg (local_copy d' source' target')
     (SignBeaconAttestationData.Domain d') = (signingRoot, Some e) \<Longrightarrow>
   SignBeaconAttestation_any pkg s started (Some cred) accountName pubKey (Some d) m =
     metered_exit s started ResultFailed None
       [Call_preCheck cred accountName pubKey (ActionSignBeaconAttestation pkg),
        Call_RunRules cred (ActionSignBeaconAttestation pkg) (Wallet.Name wallet)
          (Account.Name account) (Account.PublicKey account) d,
        Call_generateSigningRootFromData (local_copy d' source' target')
          (SignBeaconAttestationData.Domain d')] m"
  by (simp add: validated_def any_defs)

lemma any_sign_error_exit:
  "validated d source target \<Longrightarrow>
   any_preCheck s cred accountName pubKey (ActionSignBeaconAttestation pkg) =
     (wallet, account, ResultSucceeded) \<Longrightarrow>
   any_RunRules s cred (ActionSignBeaconAttestation pkg) (Wallet.Name wallet)
     (Account.Name account) (Account.PublicKey account) d = (result, d') \<Longrightarrow>
   result \<noteq> DENIED \<Longrightarrow> result \<noteq> FAILED \<Longrightarrow>
   SignBeaconAttestationData.Source d' = Some source' \<Longrightarrow>
   SignBeaconAttestationData.Target d' = Some target' \<Longrightarrow>
   generateSigningRootFromData pkg (local_copy d' source' target')
     (SignBeaconAttestationData.Domain d') = (signingRoot, None) \<Longrightarrow>
   signRoot pkg account signingRoot = (sig, Some e) \<Longrightarrow>
   SignBeaconAttestation_any pkg s started (Some cred) accountName pubKey (Some d) m =
     metered_exit s started ResultFailed None
       [Call_preCheck cred accountName pubKey (ActionSignBeaconAttestation pkg),
        Call_RunRules cred (ActionSignBeaconAttestation pkg) (Wallet.Name wallet)
          (Account.Name account) (Account.PublicKey account) d,
        Call_generateSigningRootFromData (local_copy d' source' target')
          (SignBeaconAttestationData.Domain d'),
        Call_signRoot account signingRoot] m"
  by (simp add: validated_def any_defs)

lemma any_signed_exit:
  "validated d source target \<Longrightarrow>
   any_preCheck s cred accountName pubKey (ActionSignBeaconAttestation pkg) =
     (wallet, account, ResultSucceeded) \<Longrightarrow>
   any_RunRules s cred (ActionSignBeaconAttestation pkg) (Wallet.Name wallet)
     (Account.Name account) (Account.PublicKey account) d = (result, d') \<Longrightarrow>
   result \<noteq> DENIED \<Longrightarrow> result \<noteq> FAILED \<Longrightarrow>
   SignBeaconAttestationData.Source d' = Some source' \<Longrightarrow>
   SignBeaconAttestationData.Target d' = Some target' \<Longrightarrow>
   generateSigningRootFromData pkg (local_copy d' source' target')
     (SignBeaconAttestationData.Domain d') = (signingRoot, None) \<Longrightarrow>
   signRoot pkg account signingRoot = (sig, None) \<Longrightarrow>
   SignBeaconAttestation_any pkg s started (Some cred) accountName pubKey (Some d) m =
     metered_exit s started ResultSucceeded sig
       [Call_preCheck cred accountName pubKey (ActionSignBeaconAttestation pkg),
        Call_RunRules cred (ActionSignBeaconAttestation pkg) (Wallet.Name wallet)
          (Account.Name account) (Account.PublicKey account) d,
        Call_generateSigningRootFromData (local_copy d' source' target')
          (SignBeaconAttestationData.Domain d'),
        Call_signRoot account signingRoot] m"
  by (simp add: validated_def any_defs)

lemma SignBeaconAttestation_any_cases
  [case_names no_credentials input_denied check_failed rules_denied rules_failed
     nil_checkpoint root_error sign_error signed]:
  fixes pkg :: Package and s :: "'m Service_any"
  obtains
    "credentials = None"
    "SignBeaconAttestation_any pkg s started credentials accountName pubKey data m =
       \<lparr>returned = Some (ResultFailed, None), trace = [], monitor_after = Some m\<rparr>"
  | cred where
    "credentials = Some cred" "\<not> input_complete data"
    "SignBeaconAttestation_any pkg s started credentials accountName pubKey data m =
       metered_exit s started ResultDenied None [] m"
  | cred d source target wallet account checkRes where
    "credentials = Some cred" "data = Some d" "validated d source target"
    "any_preCheck s cred accountName pubKey (ActionSignBeaconAttestation pkg) =
       (wallet, account, checkRes)"
    "checkRes \<noteq> ResultSucceeded"
    "SignBeaconAttestation_any pkg s started credentials accountName pubKey data m =
       metered_exit s started checkRes None
         [Call_preCheck cred accountName pubKey (ActionSignBeaconAttestation pkg)] m"
  | cred d source target wallet account d' where
    "credentials = Some cred" "data = Some d" "validated d source target"
    "any_preCheck s cred accountName pubKey (ActionSignBeaconAttestation pkg) =
       (wallet, account, ResultSucceeded)"
    "any_RunRules s cred (ActionSignBeaconAttestation pkg) (Wallet.Name wallet)
       (Account.Name account) (Account.PublicKey account) d = (DENIED, d')"
    "SignBeaconAttestation_any pkg s started credentials accountName pubKey data m =
       metered_exit s started ResultDenied None
         [Call_preCheck cred accountName pubKey (ActionSignBeaconAttestation pkg),
          Call_RunRules cred (ActionSignBeaconAttestation pkg) (Wallet.Name wallet)
            (Account.Name account) (Account.PublicKey account) d] m"
  | cred d source target wallet account d' where
    "credentials = Some cred" "data = Some d" "validated d source target"
    "any_preCheck s cred accountName pubKey (ActionSignBeaconAttestation pkg) =
       (wallet, account, ResultSucceeded)"
    "any_RunRules s cred (ActionSignBeaconAttestation pkg) (Wallet.Name wallet)
       (Account.Name account) (Account.PublicKey account) d = (FAILED, d')"
    "SignBeaconAttestation_any pkg s started credentials accountName pubKey data m =
       metered_exit s started ResultFailed None
         [Call_preCheck cred accountName pubKey (ActionSignBeaconAttestation pkg),
          Call_RunRules cred (ActionSignBeaconAttestation pkg) (Wallet.Name wallet)
            (Account.Name account) (Account.PublicKey account) d] m"
  | cred d source target wallet account result d' where
    "credentials = Some cred" "data = Some d" "validated d source target"
    "any_preCheck s cred accountName pubKey (ActionSignBeaconAttestation pkg) =
       (wallet, account, ResultSucceeded)"
    "any_RunRules s cred (ActionSignBeaconAttestation pkg) (Wallet.Name wallet)
       (Account.Name account) (Account.PublicKey account) d = (result, d')"
    "result \<noteq> DENIED" "result \<noteq> FAILED"
    "SignBeaconAttestationData.Source d' = None \<or> SignBeaconAttestationData.Target d' = None"
    "SignBeaconAttestation_any pkg s started credentials accountName pubKey data m =
       \<lparr>returned = None,
        trace = [Call_preCheck cred accountName pubKey (ActionSignBeaconAttestation pkg),
                 Call_RunRules cred (ActionSignBeaconAttestation pkg) (Wallet.Name wallet)
                   (Account.Name account) (Account.PublicKey account) d],
        monitor_after = Some m\<rparr>"
  | cred d source target wallet account result d' source' target' signingRoot e where
    "credentials = Some cred" "data = Some d" "validated d source target"
    "any_preCheck s cred accountName pubKey (ActionSignBeaconAttestation pkg) =
       (wallet, account, ResultSucceeded)"
    "any_RunRules s cred (ActionSignBeaconAttestation pkg) (Wallet.Name wallet)
       (Account.Name account) (Account.PublicKey account) d = (result, d')"
    "result \<noteq> DENIED" "result \<noteq> FAILED"
    "SignBeaconAttestationData.Source d' = Some source'"
    "SignBeaconAttestationData.Target d' = Some target'"
    "generateSigningRootFromData pkg (local_copy d' source' target')
       (SignBeaconAttestationData.Domain d') = (signingRoot, Some e)"
    "SignBeaconAttestation_any pkg s started credentials accountName pubKey data m =
       metered_exit s started ResultFailed None
         [Call_preCheck cred accountName pubKey (ActionSignBeaconAttestation pkg),
          Call_RunRules cred (ActionSignBeaconAttestation pkg) (Wallet.Name wallet)
            (Account.Name account) (Account.PublicKey account) d,
          Call_generateSigningRootFromData (local_copy d' source' target')
            (SignBeaconAttestationData.Domain d')] m"
  | cred d source target wallet account result d' source' target' signingRoot sig e where
    "credentials = Some cred" "data = Some d" "validated d source target"
    "any_preCheck s cred accountName pubKey (ActionSignBeaconAttestation pkg) =
       (wallet, account, ResultSucceeded)"
    "any_RunRules s cred (ActionSignBeaconAttestation pkg) (Wallet.Name wallet)
       (Account.Name account) (Account.PublicKey account) d = (result, d')"
    "result \<noteq> DENIED" "result \<noteq> FAILED"
    "SignBeaconAttestationData.Source d' = Some source'"
    "SignBeaconAttestationData.Target d' = Some target'"
    "generateSigningRootFromData pkg (local_copy d' source' target')
       (SignBeaconAttestationData.Domain d') = (signingRoot, None)"
    "signRoot pkg account signingRoot = (sig, Some e)"
    "SignBeaconAttestation_any pkg s started credentials accountName pubKey data m =
       metered_exit s started ResultFailed None
         [Call_preCheck cred accountName pubKey (ActionSignBeaconAttestation pkg),
          Call_RunRules cred (ActionSignBeaconAttestation pkg) (Wallet.Name wallet)
            (Account.Name account) (Account.PublicKey account) d,
          Call_generateSigningRootFromData (local_copy d' source' target')
            (SignBeaconAttestationData.Domain d'),
          Call_signRoot account signingRoot] m"
  | cred d source target wallet account result d' source' target' signingRoot sig where
    "credentials = Some cred" "data = Some d" "validated d source target"
    "any_preCheck s cred accountName pubKey (ActionSignBeaconAttestation pkg) =
       (wallet, account, ResultSucceeded)"
    "any_RunRules s cred (ActionSignBeaconAttestation pkg) (Wallet.Name wallet)
       (Account.Name account) (Account.PublicKey account) d = (result, d')"
    "result \<noteq> DENIED" "result \<noteq> FAILED"
    "SignBeaconAttestationData.Source d' = Some source'"
    "SignBeaconAttestationData.Target d' = Some target'"
    "generateSigningRootFromData pkg (local_copy d' source' target')
       (SignBeaconAttestationData.Domain d') = (signingRoot, None)"
    "signRoot pkg account signingRoot = (sig, None)"
    "SignBeaconAttestation_any pkg s started credentials accountName pubKey data m =
       metered_exit s started ResultSucceeded sig
         [Call_preCheck cred accountName pubKey (ActionSignBeaconAttestation pkg),
          Call_RunRules cred (ActionSignBeaconAttestation pkg) (Wallet.Name wallet)
            (Account.Name account) (Account.PublicKey account) d,
          Call_generateSigningRootFromData (local_copy d' source' target')
            (SignBeaconAttestationData.Domain d'),
          Call_signRoot account signingRoot] m"
proof (cases credentials)
  case None
  then show ?thesis using that(1) by (simp add: any_no_credentials_exit)
next
  case (Some cred)
  note c = this
  show ?thesis
  proof (cases "input_complete data")
    case False
    then show ?thesis using that(2)[OF c] c by (simp add: any_input_denied_exit)
  next
    case True
    then obtain d source target where d: "data = Some d" and v: "validated d source target"
      unfolding input_complete_iff by blast
    obtain wallet account checkRes where
      pc: "any_preCheck s cred accountName pubKey (ActionSignBeaconAttestation pkg) =
             (wallet, account, checkRes)"
      by (rule prod_cases3)
    show ?thesis
    proof (cases "checkRes = ResultSucceeded")
      case False
      then show ?thesis
        using that(3)[OF c d v pc] any_check_failed_exit[OF v pc] c d by simp
    next
      case True
      note pc = pc[unfolded True]
      obtain result d' where
        rr: "any_RunRules s cred (ActionSignBeaconAttestation pkg) (Wallet.Name wallet)
               (Account.Name account) (Account.PublicKey account) d = (result, d')"
        by (rule prod.exhaust)
      show ?thesis
      proof (cases "result = DENIED \<or> result = FAILED")
        case True
        then show ?thesis
        proof
          assume "result = DENIED"
          then show ?thesis
            using that(4)[OF c d v pc] any_rules_denied_exit[OF v pc] rr c d by simp
        next
          assume "result = FAILED"
          then show ?thesis
            using that(5)[OF c d v pc] any_rules_failed_exit[OF v pc] rr c d by simp
        qed
      next
        case False
        then have nd: "result \<noteq> DENIED" and nf: "result \<noteq> FAILED" by simp_all
        show ?thesis
        proof (cases "SignBeaconAttestationData.Source d' = None \<or>
                      SignBeaconAttestationData.Target d' = None")
          case True
          then show ?thesis
            using that(6)[OF c d v pc rr nd nf]
              any_nil_checkpoint_panic[OF v pc rr nd nf] c d by simp
        next
          case False
          then obtain source' target' where
            s': "SignBeaconAttestationData.Source d' = Some source'" and
            t': "SignBeaconAttestationData.Target d' = Some target'"
            by auto
          obtain signingRoot err where
            g: "generateSigningRootFromData pkg (local_copy d' source' target')
                  (SignBeaconAttestationData.Domain d') = (signingRoot, err)"
            by (rule prod.exhaust)
          obtain sig err' where sr: "signRoot pkg account signingRoot = (sig, err')"
            by (rule prod.exhaust)
          consider e where "err = Some e"
            | e where "err = None" "err' = Some e"
            | "err = None" "err' = None"
            by (cases err; cases err') auto
          then show ?thesis
          proof cases
            case 1
            then show ?thesis
              using that(7)[OF c d v pc rr nd nf s' t']
                any_root_error_exit[OF v pc rr nd nf s' t'] c d g by simp
          next
            case 2
            then show ?thesis
              using that(8)[OF c d v pc rr nd nf s' t']
                any_sign_error_exit[OF v pc rr nd nf s' t'] c d g sr by simp
          next
            case 3
            then show ?thesis
              using that(9)[OF c d v pc rr nd nf s' t']
                any_signed_exit[OF v pc rr nd nf s' t'] c d g sr by simp
          qed
        qed
      qed
    qed
  qed
qed

lemma behaved_agrees:
  "SignBeaconAttestation_any pkg (behaved s) started credentials accountName pubKey data m =
     \<lparr>returned =
        Some (outcome (SignBeaconAttestation pkg s started credentials accountName pubKey data m),
              signature (SignBeaconAttestation pkg s started credentials accountName pubKey data m)),
      trace = calls (SignBeaconAttestation pkg s started credentials accountName pubKey data m),
      monitor_after =
        Some (monitor_state
                (SignBeaconAttestation pkg s started credentials accountName pubKey data m))\<rparr>"
proof (cases rule: SignBeaconAttestation_cases
        [where credentials = credentials and pkg = pkg and s = s and started = started
           and accountName = accountName and pubKey = pubKey and data = data and m = m])
  case no_credentials
  then show ?thesis by (simp add: any_no_credentials_exit)
next
  case (input_denied cred)
  then show ?thesis by (simp add: any_input_denied_exit behaved_def)
next
  case (check_failed cred d source target wallet account checkRes)
  then show ?thesis
    using any_check_failed_exit[of d source target "behaved s" cred accountName pubKey pkg
        wallet account checkRes started m]
    by (simp add: behaved_def)
next
  case (rules_denied cred d source target wallet account)
  then show ?thesis
    using any_rules_denied_exit[of d source target "behaved s" cred accountName pubKey pkg
        wallet account d started m]
    by (simp add: behaved_def)
next
  case (rules_failed cred d source target wallet account)
  then show ?thesis
    using any_rules_failed_exit[of d source target "behaved s" cred accountName pubKey pkg
        wallet account d started m]
    by (simp add: behaved_def)
next
  case (root_error cred d source target wallet account result signingRoot e)
  then show ?thesis
    using any_root_error_exit[of d source target "behaved s" cred accountName pubKey pkg
        wallet account result d source target signingRoot e started m]
    by (simp add: behaved_def validated_def)
next
  case (sign_error cred d source target wallet account result signingRoot sig e)
  then show ?thesis
    using any_sign_error_exit[of d source target "behaved s" cred accountName pubKey pkg
        wallet account result d source target signingRoot sig e started m]
    by (simp add: behaved_def validated_def)
next
  case (signed cred d source target wallet account result signingRoot sig)
  then show ?thesis
    using any_signed_exit[of d source target "behaved s" cred accountName pubKey pkg
        wallet account result d source target signingRoot sig started m]
    by (simp add: behaved_def validated_def)
qed

section \<open>Rule evaluation\<close>

text \<open>
  What the \<open>switch\<close> of lines 114-123 does with the verdict of a call to \<open>RunRules\<close>:
  \<open>DENIED\<close> and \<open>FAILED\<close> end the request; every other value, \<open>APPROVED\<close>,
  \<open>UNKNOWN\<close> or an integer that is none of the four constants, goes on to the
  derivation of the signing root.
\<close>

lemma verdict_switch:
  assumes "r = SignBeaconAttestation pkg s started credentials accountName pubKey data m"
    and "Call_RunRules cred action walletName name key d \<in> set (calls r)"
    and "verdict = ruler_RunRules s cred action walletName name key d"
  shows "(verdict = DENIED \<longrightarrow> outcome r = ResultDenied \<and> signature r = None) \<and>
         (verdict = FAILED \<longrightarrow> outcome r = ResultFailed \<and> signature r = None) \<and>
         (verdict \<noteq> DENIED \<and> verdict \<noteq> FAILED \<longrightarrow>
            filter is_generateSigningRootFromData (calls r) \<noteq> [])"
  using assms
  by (cases rule: SignBeaconAttestation_cases
        [where credentials = credentials and pkg = pkg and s = s and started = started
           and accountName = accountName and pubKey = pubKey and data = data and m = m])
     (auto simp: DENIED_def FAILED_def)

text \<open>
  C1. The claim: a DENIED verdict gives DENIED, a FAILED verdict gives FAILED, an UNKNOWN
  verdict is treated as FAILED, and only an APPROVED verdict proceeds to signing.
  The code at the example request, with credentials, complete data, a resolver that
  succeeds and a ruler that answers \<open>UNKNOWN\<close>: the \<open>switch\<close> has no case for
  \<open>UNKNOWN\<close> and no default, so the request is signed and the outcome is SUCCEEDED, with
  the signer's signature and one metrics record tagged SUCCEEDED.
\<close>

theorem unknown_verdict_is_signed:
  "outcome (example_run ResultSucceeded UNKNOWN (example_root, None)
              (Some example_signature, None) (Some example_data)) = ResultSucceeded \<and>
   signature (example_run ResultSucceeded UNKNOWN (example_root, None)
              (Some example_signature, None) (Some example_data)) = Some example_signature \<and>
   filter is_signRoot (calls (example_run ResultSucceeded UNKNOWN (example_root, None)
              (Some example_signature, None) (Some example_data))) =
     [Call_signRoot example_account example_root] \<and>
   monitor_state (example_run ResultSucceeded UNKNOWN (example_root, None)
              (Some example_signature, None) (Some example_data)) =
     [(0, ''attestation'', ResultSucceeded)]"
  by (simp add: eval_defs)

section \<open>Input validation\<close>

text \<open>
  C2, as stated: a request in which one of the six fields is absent, in the sense of the
  invariant that every field be present (non-empty), is denied and never reaches
  \<open>RunRules\<close>. The tests of lines 68-102 are \<open>== nil\<close>, not tests of the length: the
  example request with a target root that is present and empty passes them, reaches
  \<open>RunRules\<close> and is signed.
\<close>

theorem empty_root_not_denied:
  "outcome (example_run ResultSucceeded APPROVED (example_root, None)
      (Some example_signature, None) (Some example_data_empty_target_root)) = ResultSucceeded \<and>
   signature (example_run ResultSucceeded APPROVED (example_root, None)
      (Some example_signature, None) (Some example_data_empty_target_root)) =
     Some example_signature \<and>
   filter is_RunRules (calls (example_run ResultSucceeded APPROVED (example_root, None)
      (Some example_signature, None) (Some example_data_empty_target_root))) =
     [Call_RunRules example_credentials ''Sign beacon attestation'' ''wallet'' ''account''
        (replicate 48 0x0C) example_data_empty_target_root] \<and>
   SignBeaconAttestationData.Target example_data_empty_target_root =
     Some \<lparr>rules_Checkpoint.Epoch = 11, rules_Checkpoint.Root = Some []\<rparr>"
  by (simp add: eval_defs example_data_empty_target_root_def)

text \<open>
  C2, amended: for every request with credentials, if the data record is \<open>nil\<close>, or its
  domain, beacon block root, source, source root, target or target root is \<open>nil\<close>, the
  outcome is DENIED, no signature is returned and \<open>RunRules\<close> is not called.
\<close>


theorem missing_field_denied:
  assumes "credentials = Some cred"
    and "data = None \<or>
         (\<exists>d. data = Some d \<and>
            (SignBeaconAttestationData.Domain d = None \<or>
             SignBeaconAttestationData.BeaconBlockRoot d = None \<or>
             SignBeaconAttestationData.Source d = None \<or>
             (\<exists>c. SignBeaconAttestationData.Source d = Some c \<and> rules_Checkpoint.Root c = None) \<or>
             SignBeaconAttestationData.Target d = None \<or>
             (\<exists>c. SignBeaconAttestationData.Target d = Some c \<and> rules_Checkpoint.Root c = None)))"
    and "r = SignBeaconAttestation pkg s started credentials accountName pubKey data m"
  shows "outcome r = ResultDenied \<and> signature r = None \<and> filter is_RunRules (calls r) = []"
proof -
  have "\<not> input_complete data"
    using assms(2) by (auto simp: input_complete_def)
  then show ?thesis
    using assms(1,3) by (simp add: input_denied_exit)
qed

theorem missing_field_denied_witness:
  "outcome (example_run ResultSucceeded APPROVED (example_root, None)
      (Some example_signature, None) (Some example_data_no_target_root)) = ResultDenied \<and>
   signature (example_run ResultSucceeded APPROVED (example_root, None)
      (Some example_signature, None) (Some example_data_no_target_root)) = None \<and>
   filter is_RunRules (calls (example_run ResultSucceeded APPROVED (example_root, None)
      (Some example_signature, None) (Some example_data_no_target_root))) = []"
  using missing_field_denied
    [where credentials = "Some example_credentials" and cred = example_credentials
       and data = "Some example_data_no_target_root"
       and pkg = "stub_package (example_root, None) (Some example_signature, None)"
       and s = "stub_service recording_monitor ResultSucceeded APPROVED"
       and started = 0 and accountName = "''wallet/account''" and pubKey = None and m = "[]",
     OF refl _ refl]
  by (simp add: example_run_def example_data_no_target_root_def example_data_def
      example_target_def)

section \<open>Credential resolution\<close>

text \<open>
  C6. For every request, if the call to \<open>preCheck\<close> returns a result other than
  SUCCEEDED, the pipeline returns exactly that result with no signature, and the run
  contains no call to \<open>RunRules\<close>, to the root derivation or to the signer.
\<close>

theorem resolver_refusal_returned:
  assumes "r = SignBeaconAttestation pkg s started credentials accountName pubKey data m"
    and "Call_preCheck cred name key action \<in> set (calls r)"
    and "preCheck s cred name key action = (wallet, account, checkRes)"
    and "checkRes \<noteq> ResultSucceeded"
  shows "outcome r = checkRes \<and> signature r = None \<and>
         filter is_RunRules (calls r) = [] \<and>
         filter is_generateSigningRootFromData (calls r) = [] \<and>
         filter is_signRoot (calls r) = []"
  using assms
  by (cases rule: SignBeaconAttestation_cases
        [where credentials = credentials and pkg = pkg and s = s and started = started
           and accountName = accountName and pubKey = pubKey and data = data and m = m])
     auto

theorem resolver_refusal_returned_witness:
  "outcome (example_run ResultDenied APPROVED (example_root, None)
      (Some example_signature, None) (Some example_data)) = ResultDenied \<and>
   signature (example_run ResultDenied APPROVED (example_root, None)
      (Some example_signature, None) (Some example_data)) = None \<and>
   filter is_RunRules (calls (example_run ResultDenied APPROVED (example_root, None)
      (Some example_signature, None) (Some example_data))) = [] \<and>
   filter is_generateSigningRootFromData (calls (example_run ResultDenied APPROVED
      (example_root, None) (Some example_signature, None) (Some example_data))) = [] \<and>
   filter is_signRoot (calls (example_run ResultDenied APPROVED (example_root, None)
      (Some example_signature, None) (Some example_data))) = []"
proof -
  have called: "Call_preCheck example_credentials ''wallet/account'' None
      ''Sign beacon attestation'' \<in> set (calls (example_run ResultDenied APPROVED
      (example_root, None) (Some example_signature, None) (Some example_data)))"
    by (simp add: eval_defs)
  have answer: "preCheck (stub_service recording_monitor ResultDenied APPROVED)
      example_credentials ''wallet/account'' None ''Sign beacon attestation'' =
      (example_wallet, example_account, ResultDenied)"
    by (simp add: stub_service_def)
  show ?thesis
    using resolver_refusal_returned[OF example_run_def called answer] by simp
qed

section \<open>Signing\<close>

text \<open>
  C7. For every request approved by the rules, if the derivation of the signing root
  returns an error, or the signer returns an error, the outcome is FAILED and no
  signature is returned. The first witness has the derivation fail, the second the
  signer.
\<close>

theorem signing_error_failed:
  assumes "r = SignBeaconAttestation pkg s started credentials accountName pubKey data m"
    and "Call_RunRules cred action walletName name key d \<in> set (calls r)"
    and "ruler_RunRules s cred action walletName name key d = APPROVED"
    and "(Call_generateSigningRootFromData attestation domain \<in> set (calls r) \<and>
          snd (generateSigningRootFromData pkg attestation domain) \<noteq> None) \<or>
         (Call_signRoot account signingRoot \<in> set (calls r) \<and>
          snd (signRoot pkg account signingRoot) \<noteq> None)"
  shows "outcome r = ResultFailed \<and> signature r = None"
  using assms
  by (cases rule: SignBeaconAttestation_cases
        [where credentials = credentials and pkg = pkg and s = s and started = started
           and accountName = accountName and pubKey = pubKey and data = data and m = m])
     auto

theorem signing_error_failed_witness:
  "outcome (example_run ResultSucceeded APPROVED (example_root, Some ''short root'')
      (Some example_signature, None) (Some example_data)) = ResultFailed \<and>
   signature (example_run ResultSucceeded APPROVED (example_root, Some ''short root'')
      (Some example_signature, None) (Some example_data)) = None \<and>
   outcome (example_run ResultSucceeded APPROVED (example_root, None)
      (Some example_signature, Some ''account is locked'') (Some example_data)) = ResultFailed \<and>
   signature (example_run ResultSucceeded APPROVED (example_root, None)
      (Some example_signature, Some ''account is locked'') (Some example_data)) = None"
proof -
  let ?s = "stub_service recording_monitor ResultSucceeded APPROVED"
  let ?a = "local_copy example_data example_source example_target"
  let ?r1 = "example_run ResultSucceeded APPROVED (example_root, Some ''short root'')
      (Some example_signature, None) (Some example_data)"
  let ?r2 = "example_run ResultSucceeded APPROVED (example_root, None)
      (Some example_signature, Some ''account is locked'') (Some example_data)"
  have approved: "ruler_RunRules ?s example_credentials ''Sign beacon attestation''
      ''wallet'' ''account'' (replicate 48 0x0C) example_data = APPROVED"
    by (simp add: stub_service_def)
  have rules1: "Call_RunRules example_credentials ''Sign beacon attestation''
      ''wallet'' ''account'' (replicate 48 0x0C) example_data \<in> set (calls ?r1)"
    by (simp add: eval_defs)
  have root1: "Call_generateSigningRootFromData ?a (Some (replicate 32 0x01)) \<in> set (calls ?r1)
      \<and> snd (generateSigningRootFromData
               (stub_package (example_root, Some ''short root'') (Some example_signature, None))
               ?a (Some (replicate 32 0x01))) \<noteq> None"
    by (simp add: eval_defs)
  have rules2: "Call_RunRules example_credentials ''Sign beacon attestation''
      ''wallet'' ''account'' (replicate 48 0x0C) example_data \<in> set (calls ?r2)"
    by (simp add: eval_defs)
  have sign2: "Call_signRoot example_account example_root \<in> set (calls ?r2)
      \<and> snd (signRoot
               (stub_package (example_root, None)
                  (Some example_signature, Some ''account is locked''))
               example_account example_root) \<noteq> None"
    by (simp add: eval_defs)
  show ?thesis
    using signing_error_failed[OF example_run_def rules1 approved disjI1, OF root1]
      signing_error_failed[OF example_run_def rules2 approved disjI2, OF sign2]
    by simp
qed

text \<open>
  C10, as stated: the record handed to the root derivation is field for field equal to
  the incoming request. The request goes to \<open>RunRules\<close> by pointer and is read again
  after the call: with a provider that approves and writes slot 101 into the request, the
  record that is derived from and signed has slot 101, and the incoming request has slot
  100.
\<close>

theorem written_request_is_signed:
  "filter is_generateSigningRootFromData
     (trace (example_run_any (returning recording_monitor) raise_slot [])) =
     [Call_generateSigningRootFromData
        \<lparr>BeaconAttestation.Slot = 101, BeaconAttestation.CommitteeIndex = 0,
         BeaconAttestation.BeaconBlockRoot = Some (replicate 31 0x00 @ [0x01]),
         BeaconAttestation.Source =
           Some \<lparr>Checkpoint.Epoch = 10, Checkpoint.Root = Some (replicate 32 0xAA)\<rparr>,
         BeaconAttestation.Target =
           Some \<lparr>Checkpoint.Epoch = 11, Checkpoint.Root = Some (replicate 32 0xBB)\<rparr>\<rparr>
        (Some (replicate 32 0x01))] \<and>
   SignBeaconAttestationData.Slot example_data = 100 \<and>
   returned (example_run_any (returning recording_monitor) raise_slot []) =
     Some (ResultSucceeded, Some example_signature)"
  by (simp add: any_eval_defs raise_slot_def)

text \<open>
  C10, amended: the \<open>BeaconAttestation\<close> handed to the root derivation has the slot,
  committee index and beacon block root of the request as \<open>RunRules\<close> leaves it,
  checkpoints with the epochs and roots of that request's source and target, and is
  derived under that request's domain; the root handed to the signer is the one the
  derivation returned. They are the fields of the incoming request whenever the rule
  providers do not write it, as in the witness.
\<close>

theorem local_copy_fields:
  assumes "r = SignBeaconAttestation_any pkg s started credentials accountName pubKey data m"
    and "Call_generateSigningRootFromData attestation domain \<in> set (trace r)"
  shows "\<exists>cred action walletName name key d d' source target source' target'.
           data = Some d \<and>
           Call_RunRules cred action walletName name key d \<in> set (trace r) \<and>
           d' = snd (any_RunRules s cred action walletName name key d) \<and>
           SignBeaconAttestationData.Source d' = Some source \<and>
           SignBeaconAttestationData.Target d' = Some target \<and>
           BeaconAttestation.Source attestation = Some source' \<and>
           BeaconAttestation.Target attestation = Some target' \<and>
           BeaconAttestation.Slot attestation = SignBeaconAttestationData.Slot d' \<and>
           BeaconAttestation.CommitteeIndex attestation =
             SignBeaconAttestationData.CommitteeIndex d' \<and>
           BeaconAttestation.BeaconBlockRoot attestation =
             SignBeaconAttestationData.BeaconBlockRoot d' \<and>
           Checkpoint.Epoch source' = rules_Checkpoint.Epoch source \<and>
           Checkpoint.Root source' = rules_Checkpoint.Root source \<and>
           Checkpoint.Epoch target' = rules_Checkpoint.Epoch target \<and>
           Checkpoint.Root target' = rules_Checkpoint.Root target \<and>
           domain = SignBeaconAttestationData.Domain d' \<and>
           (\<forall>account signingRoot. Call_signRoot account signingRoot \<in> set (trace r) \<longrightarrow>
              signingRoot = fst (generateSigningRootFromData pkg attestation domain))"
  using assms
  by (cases rule: SignBeaconAttestation_any_cases
        [where credentials = credentials and pkg = pkg and s = s and started = started
           and accountName = accountName and pubKey = pubKey and data = data and m = m])
     (auto split: option.splits)

theorem local_copy_fields_witness:
  "Call_generateSigningRootFromData
     \<lparr>BeaconAttestation.Slot = 100, BeaconAttestation.CommitteeIndex = 0,
      BeaconAttestation.BeaconBlockRoot = Some (replicate 31 0x00 @ [0x01]),
      BeaconAttestation.Source =
        Some \<lparr>Checkpoint.Epoch = 10, Checkpoint.Root = Some (replicate 32 0xAA)\<rparr>,
      BeaconAttestation.Target =
        Some \<lparr>Checkpoint.Epoch = 11, Checkpoint.Root = Some (replicate 32 0xBB)\<rparr>\<rparr>
     (Some (replicate 32 0x01))
     \<in> set (trace (example_run_any (returning recording_monitor) id [])) \<and>
   SignBeaconAttestationData.Slot example_data = 100 \<and>
   SignBeaconAttestationData.CommitteeIndex example_data = 0 \<and>
   SignBeaconAttestationData.BeaconBlockRoot example_data = Some (replicate 31 0x00 @ [0x01]) \<and>
   SignBeaconAttestationData.Domain example_data = Some (replicate 32 0x01)"
proof -
  let ?a = "\<lparr>BeaconAttestation.Slot = 100, BeaconAttestation.CommitteeIndex = 0,
      BeaconAttestation.BeaconBlockRoot = Some (replicate 31 0x00 @ [0x01]),
      BeaconAttestation.Source =
        Some \<lparr>Checkpoint.Epoch = 10, Checkpoint.Root = Some (replicate 32 0xAA)\<rparr>,
      BeaconAttestation.Target =
        Some \<lparr>Checkpoint.Epoch = 11, Checkpoint.Root = Some (replicate 32 0xBB)\<rparr>\<rparr>"
  have call: "Call_generateSigningRootFromData ?a (Some (replicate 32 0x01))
     \<in> set (trace (example_run_any (returning recording_monitor) id []))"
    by (simp add: any_eval_defs)
  show ?thesis
    using local_copy_fields[OF example_run_any_def call] call
    by (auto simp: stub_service_any_def)
qed

section \<open>Outcome and signature\<close>

text \<open>
  C3. At every exit, if the outcome is SUCCEEDED the signature is not empty, and if the
  outcome is DENIED or FAILED no signature is returned. The function returns the slice
  of \<open>signRoot\<close> as it is (line 156), so the first half is the signer's contract carried
  through; the second half needs nothing of the signer.
\<close>

theorem outcome_signature_pairing:
  assumes "r = SignBeaconAttestation pkg s started credentials accountName pubKey data m"
  shows "(signer_contract pkg \<longrightarrow> outcome r = ResultSucceeded \<longrightarrow> 0 < len (signature r)) \<and>
         (outcome r = ResultDenied \<or> outcome r = ResultFailed \<longrightarrow> signature r = None) \<and>
         (outcome r = ResultSucceeded \<longrightarrow>
            (\<exists>account signingRoot.
               Call_signRoot account signingRoot \<in> set (calls r) \<and>
               signRoot pkg account signingRoot = (signature r, None)))"
  using assms unfolding signer_contract_def
  by (cases rule: SignBeaconAttestation_cases
        [where credentials = credentials and pkg = pkg and s = s and started = started
           and accountName = accountName and pubKey = pubKey and data = data and m = m])
     auto

theorem outcome_signature_pairing_witness:
  "outcome (example_run ResultSucceeded APPROVED (example_root, None)
      (Some example_signature, None) (Some example_data)) = ResultSucceeded \<and>
   len (signature (example_run ResultSucceeded APPROVED (example_root, None)
      (Some example_signature, None) (Some example_data))) = 96 \<and>
   outcome (example_run ResultSucceeded DENIED (example_root, None)
      (Some example_signature, None) (Some example_data)) = ResultDenied \<and>
   signature (example_run ResultSucceeded DENIED (example_root, None)
      (Some example_signature, None) (Some example_data)) = None"
proof -
  let ?pkg = "stub_package (example_root, None) (Some example_signature, None)"
  have signer: "signer_contract ?pkg"
    by (auto simp: signer_contract_def stub_package_def len_def example_signature_def)
  have ok: "outcome (example_run ResultSucceeded APPROVED (example_root, None)
      (Some example_signature, None) (Some example_data)) = ResultSucceeded"
    by (simp add: eval_defs)
  have denied: "outcome (example_run ResultSucceeded DENIED (example_root, None)
      (Some example_signature, None) (Some example_data)) = ResultDenied"
    by (simp add: eval_defs)
  have "0 < len (signature (example_run ResultSucceeded APPROVED (example_root, None)
      (Some example_signature, None) (Some example_data)))"
    using outcome_signature_pairing[OF example_run_def] signer ok by blast
  moreover have "signature (example_run ResultSucceeded DENIED (example_root, None)
      (Some example_signature, None) (Some example_data)) = None"
    using outcome_signature_pairing[OF example_run_def] denied by blast
  moreover have "len (signature (example_run ResultSucceeded APPROVED (example_root, None)
      (Some example_signature, None) (Some example_data))) = 96"
    by (simp add: eval_defs len_def example_signature_def)
  ultimately show ?thesis using ok denied by simp
qed

section \<open>Metrics\<close>

text \<open>
  C4. Without credentials the pipeline returns FAILED with no signature, calls no
  collaborator and leaves the monitor as it was; and a run has no call to
  \<open>SignCompleted\<close> only if the credentials were absent.
\<close>

theorem no_credentials_failed_unmetered:
  "SignBeaconAttestation pkg s started None accountName pubKey data m =
     \<lparr>outcome = ResultFailed, signature = None, calls = [], monitor_state = m\<rparr> \<and>
   (filter is_SignCompleted
      (calls (SignBeaconAttestation pkg s started credentials accountName pubKey data m)) = []
    \<longleftrightarrow> credentials = None)"
proof (cases credentials)
  case None
  then show ?thesis by (simp add: no_credentials_exit)
next
  case (Some cred)
  then show ?thesis
    using metered_once(1)[OF refl, of pkg s started cred accountName pubKey data m]
    by (simp add: no_credentials_exit)
qed

text \<open>
  C5. With credentials, every execution calls \<open>SignCompleted\<close> exactly once, with the
  start time, the action name \<open>attestation\<close> and the outcome that the function returns;
  the monitor's state on exit is the result of that one call.
\<close>

theorem one_metrics_record:
  assumes "credentials = Some cred"
    and "r = SignBeaconAttestation pkg s started credentials accountName pubKey data m"
  shows "filter is_SignCompleted (calls r) =
           [Call_SignCompleted started ''attestation'' (outcome r)] \<and>
         monitor_state r = monitor_SignCompleted s started ''attestation'' (outcome r) m"
  using assms metered_once[of r pkg s started cred accountName pubKey data m] by simp

theorem one_metrics_record_witness:
  "filter is_SignCompleted (calls (example_run ResultSucceeded APPROVED (example_root, None)
      (Some example_signature, None) (Some example_data))) =
     [Call_SignCompleted 0 ''attestation'' ResultSucceeded] \<and>
   monitor_state (example_run ResultSucceeded APPROVED (example_root, None)
      (Some example_signature, None) (Some example_data)) =
     [(0, ''attestation'', ResultSucceeded)]"
proof -
  have ok: "outcome (example_run ResultSucceeded APPROVED (example_root, None)
      (Some example_signature, None) (Some example_data)) = ResultSucceeded"
    by (simp add: eval_defs)
  show ?thesis
    using one_metrics_record[OF refl example_run_def,
        of ResultSucceeded APPROVED "(example_root, None)" "(Some example_signature, None)"
           "Some example_data"]
    by (simp add: ok stub_service_def recording_monitor_def)
qed




section \<open>The order of the verdicts\<close>

text \<open>
  C9, as stated: the maximum over any multiset of verdicts is fail-closed. \<open>UNKNOWN\<close>
  is a verdict and lies below \<open>APPROVED\<close>, so the maximum does not see it: a provider
  without a verdict next to an approval gives APPROVED, and providers without a verdict
  alone give UNKNOWN.
\<close>

theorem unknown_is_outvoted:
  "Max_mset {#UNKNOWN, APPROVED#} = APPROVED \<and> Max_mset {#UNKNOWN, UNKNOWN#} = UNKNOWN \<and>
   UNKNOWN < APPROVED"
  by (simp add: UNKNOWN_def APPROVED_def)

text \<open>
  C9, amended: the constants satisfy \<open>UNKNOWN = 0 < APPROVED < DENIED < FAILED\<close>. So,
  for every non-empty multiset of verdicts, the maximum is FAILED when a FAILED is
  present and DENIED when a DENIED is present and no FAILED; and, for the multisets in
  which no verdict is UNKNOWN, it is APPROVED exactly when every verdict is APPROVED.
\<close>


theorem verdict_order_fail_closed:
  assumes "M \<noteq> {#}"
    and "\<forall>v \<in># M. v = UNKNOWN \<or> v = APPROVED \<or> v = DENIED \<or> v = FAILED"
  shows "UNKNOWN = 0 \<and> UNKNOWN < APPROVED \<and> APPROVED < DENIED \<and> DENIED < FAILED \<and>
         (FAILED \<in># M \<longrightarrow> Max_mset M = FAILED) \<and>
         (DENIED \<in># M \<and> FAILED \<notin># M \<longrightarrow> Max_mset M = DENIED) \<and>
         (UNKNOWN \<notin># M \<longrightarrow> (Max_mset M = APPROVED \<longleftrightarrow> (\<forall>v \<in># M. v = APPROVED)))"
proof -
  have order: "UNKNOWN = 0 \<and> UNKNOWN < APPROVED \<and> APPROVED < DENIED \<and> DENIED < FAILED"
    by (simp add: UNKNOWN_def APPROVED_def DENIED_def FAILED_def)
  have fin: "finite (set_mset M)" by simp
  have ne: "set_mset M \<noteq> {}" using assms(1) by simp
  have failed: "Max_mset M = FAILED" if "FAILED \<in># M"
  proof (rule Max_eqI[OF fin _ that])
    fix v assume "v \<in># M"
    then show "v \<le> FAILED"
      using assms(2) by (auto simp: UNKNOWN_def APPROVED_def DENIED_def FAILED_def)
  qed
  have denied: "Max_mset M = DENIED" if "DENIED \<in># M" "FAILED \<notin># M"
  proof (rule Max_eqI[OF fin _ that(1)])
    fix v assume "v \<in># M"
    then show "v \<le> DENIED"
      using assms(2) that(2) by (auto simp: UNKNOWN_def APPROVED_def DENIED_def FAILED_def)
  qed
  have approved: "Max_mset M = APPROVED \<longleftrightarrow> (\<forall>v \<in># M. v = APPROVED)" if "UNKNOWN \<notin># M"
  proof
    assume mx: "Max_mset M = APPROVED"
    show "\<forall>v \<in># M. v = APPROVED"
    proof
      fix v assume v: "v \<in># M"
      then have "v \<le> APPROVED" using Max_ge[OF fin, of v] mx by simp
      moreover have "v \<noteq> UNKNOWN" using v that by auto
      ultimately show "v = APPROVED"
        using assms(2) v by (auto simp: UNKNOWN_def APPROVED_def DENIED_def FAILED_def)
    qed
  next
    assume all: "\<forall>v \<in># M. v = APPROVED"
    obtain v where "v \<in># M" using assms(1) by auto
    then have a: "APPROVED \<in># M" using all by auto
    show "Max_mset M = APPROVED"
    proof (rule Max_eqI[OF fin _ a])
      fix v assume "v \<in># M"
      then show "v \<le> APPROVED" using all by auto
    qed
  qed
  show ?thesis using order failed denied approved by blast
qed

theorem verdict_order_fail_closed_witness:
  "Max_mset {#APPROVED, FAILED, DENIED, APPROVED#} = FAILED \<and>
   Max_mset {#APPROVED, DENIED, UNKNOWN#} = DENIED \<and>
   Max_mset {#APPROVED, APPROVED#} = APPROVED"
proof -
  have 1: "Max_mset {#APPROVED, FAILED, DENIED, APPROVED#} = FAILED"
    using verdict_order_fail_closed[of "{#APPROVED, FAILED, DENIED, APPROVED#}"] by simp
  have 2: "Max_mset {#APPROVED, DENIED, UNKNOWN#} = DENIED"
    using verdict_order_fail_closed[of "{#APPROVED, DENIED, UNKNOWN#}"]
    by (simp add: FAILED_def APPROVED_def DENIED_def UNKNOWN_def)
  have 3: "Max_mset {#APPROVED, APPROVED#} = APPROVED"
    using verdict_order_fail_closed[of "{#APPROVED, APPROVED#}"]
    by (simp add: APPROVED_def UNKNOWN_def)
  show ?thesis using 1 2 3 by simp
qed


end
